theory Spec2Isabelle
  imports Main
begin

section \<open>Data model (main.py, lines 39--86)\<close>

text \<open>
  The three tables of the blog. Primary keys are natural numbers. A foreign-key column is
  nullable in the schema, so it is an option. The columns of a post that the schema
  declares \<open>nullable=False\<close> are plain strings: a row holding NULL there cannot be
  stored, and the insert and update operations below refuse it.
\<close>

record user =
  u_id :: nat
  u_email :: string
  u_password :: string
  u_name :: string

record blog_post =
  p_id :: nat
  p_author_id :: "nat option"
  p_title :: string
  p_subtitle :: string
  p_date :: string
  p_body :: string
  p_img_url :: string

record comment =
  c_id :: nat
  c_author_id :: "nat option"
  c_post_id :: "nat option"
  c_text :: string

text \<open>
  The state one client sees: the three tables in row order, the user id that Flask-Login
  keeps in the signed session cookie, the flashed messages, and the mails handed to the
  SMTP relay.
\<close>

record app_state =
  users :: "user list"
  blog_posts :: "blog_post list"
  comments :: "comment list"
  session_user_id :: "nat option"
  flashes :: "string list"
  outbox :: "string list"

section \<open>Requests, responses and the environment\<close>

datatype http_method = GET | POST

record request =
  meth :: http_method
  url :: string
  form :: "(string \<times> string) list"

datatype form_class = CreatePostForm | RegisterForm | LoginForm | CommentForm

datatype month = January | February | March | April | May | June | July
  | August | September | October | November | December

record datetime =
  year :: nat
  month_of :: month
  day :: nat

text \<open>
  What the handlers use and this file does not define: the validators of the form
  classes (module \<open>forms\<close>), the two functions of \<open>werkzeug.security\<close> (the hash is
  taken with the salt of this request already drawn), the clock, and whether the SMTP
  relay accepts the message.
\<close>

record env =
  validate :: "form_class \<Rightarrow> (string \<times> string) list \<Rightarrow> bool"
  generate_password_hash :: "string \<Rightarrow> string"
  check_password_hash :: "string \<Rightarrow> string \<Rightarrow> bool"
  now :: datetime
  smtp_ok :: bool

text \<open>
  What a handler returns: a redirect to \<open>url_for(endpoint, **values)\<close>, a rendered
  template with the post it shows (when it shows one), an HTTP error raised by
  \<open>abort\<close> or by the framework (400 for a missing form key, 403, 405), or the failure
  of the request by an exception nobody handles.
\<close>

datatype response =
    Redirect string "(string \<times> string) list"
  | Render string "blog_post option"
  | Abort nat
  | ServerError

type_synonym handler = "env \<Rightarrow> app_state \<Rightarrow> request \<Rightarrow> app_state \<times> response"

section \<open>Queries and writes\<close>

definition query_get_user :: "user list \<Rightarrow> nat \<Rightarrow> user option" where
  "query_get_user us i = find (\<lambda>u. u_id u = i) us"

definition query_get_post :: "blog_post list \<Rightarrow> nat \<Rightarrow> blog_post option" where
  "query_get_post ps i = find (\<lambda>p. p_id p = i) ps"

text \<open>
  The store is SQLite unless the environment names another (line 28), and an SQLite
  integer is signed and 64 bits wide. The URL converter \<open><int:index>\<close> accepts every
  natural number; the driver raises an OverflowError when it is asked to bind an id of
  \<open>2^63\<close> or more as the parameter of the lookup. \<open>blog_post_query_get\<close> is
  \<open>BlogPost.query.get\<close> with that failure: \<open>None\<close> is the OverflowError,
  \<open>Some None\<close> the answer that no row has the id.
\<close>

definition sqlite_binds :: "nat \<Rightarrow> bool" where
  "sqlite_binds i = (i < 2 ^ 63)"

definition blog_post_query_get :: "blog_post list \<Rightarrow> nat \<Rightarrow> blog_post option option" where
  "blog_post_query_get ps i = (if sqlite_binds i then Some (query_get_post ps i) else None)"

definition filter_by_email_first :: "user list \<Rightarrow> string \<Rightarrow> user option" where
  "filter_by_email_first us e = find (\<lambda>u. u_email u = e) us"

text \<open>An integer primary key of a new row: one more than the largest in the table.\<close>

definition next_id :: "nat list \<Rightarrow> nat" where
  "next_id ids = Suc (fold max ids 0)"

text \<open>
  \<open>db.session.add(new_user); db.session.commit()\<close>. The column \<open>email\<close> is unique:
  the commit raises an IntegrityError, here \<open>None\<close>, when the email is taken.
\<close>

definition add_user :: "user list \<Rightarrow> string \<Rightarrow> string \<Rightarrow> string \<Rightarrow> user list option" where
  "add_user us email password name =
     (if email \<in> set (map u_email us) then None
      else Some (us @ [\<lparr>u_id = next_id (map u_id us), u_email = email,
                        u_password = password, u_name = name\<rparr>]))"

text \<open>
  \<open>db.session.add(created_post); db.session.commit()\<close>. The column \<open>title\<close> is
  unique and \<open>body\<close> (read with \<open>request.form.get\<close>, so possibly \<open>None\<close>) is not
  nullable: the commit raises an IntegrityError, here \<open>None\<close>, in both cases.
\<close>

definition add_post ::
  "blog_post list \<Rightarrow> string \<Rightarrow> string \<Rightarrow> nat \<Rightarrow> string \<Rightarrow> string \<Rightarrow> string option
     \<Rightarrow> blog_post list option" where
  "add_post ps title subtitle author date img body =
     (case body of
        None \<Rightarrow> None
      | Some b \<Rightarrow>
          if title \<in> set (map p_title ps) then None
          else Some (ps @ [\<lparr>p_id = next_id (map p_id ps), p_author_id = Some author,
                             p_title = title, p_subtitle = subtitle, p_date = date,
                             p_body = b, p_img_url = img\<rparr>]))"

text \<open>
  The commit of an edited post: the same two constraints, the title compared with the
  titles of the other rows.
\<close>

definition update_post ::
  "blog_post list \<Rightarrow> nat \<Rightarrow> string \<Rightarrow> string \<Rightarrow> string \<Rightarrow> string \<Rightarrow> string option
     \<Rightarrow> blog_post list option" where
  "update_post ps i title subtitle date img body =
     (case body of
        None \<Rightarrow> None
      | Some b \<Rightarrow>
          if title \<in> set (map p_title (filter (\<lambda>p. p_id p \<noteq> i) ps)) then None
          else Some (map (\<lambda>p. if p_id p = i
                               then p\<lparr>p_title := title, p_subtitle := subtitle, p_date := date,
                                      p_img_url := img, p_body := b\<rparr>
                               else p) ps))"

text \<open>
  \<open>db.session.delete(post); db.session.commit()\<close>. The relationship
  \<open>BlogPost.comments\<close> (line 50) declares no delete cascade, so the unit of work
  de-associates the children of the deleted row: it sets their \<open>post_id\<close> to NULL and
  deletes none of them.
\<close>

definition nullify_post :: "nat \<Rightarrow> comment \<Rightarrow> comment" where
  "nullify_post i c = (if c_post_id c = Some i then c\<lparr>c_post_id := None\<rparr> else c)"

definition session_delete_post :: "app_state \<Rightarrow> nat \<Rightarrow> app_state" where
  "session_delete_post st i =
     st\<lparr>blog_posts := filter (\<lambda>p. p_id p \<noteq> i) (blog_posts st),
        comments := map (nullify_post i) (comments st)\<rparr>"

section \<open>Identity (lines 93--96 and Flask-Login's \<open>current_user\<close>)\<close>

text \<open>
  \<open>current_user\<close> is the anonymous user (\<open>is_authenticated\<close> false, no \<open>id\<close>)
  when the session holds no user id or \<open>load_user\<close> finds no row for it, and the
  loaded user otherwise.
\<close>

datatype identity = Anonymous | Authenticated user

definition load_user :: "app_state \<Rightarrow> nat \<Rightarrow> user option" where
  "load_user st user_id = query_get_user (users st) user_id"

definition current_user :: "app_state \<Rightarrow> identity" where
  "current_user st =
     (case session_user_id st of
        None \<Rightarrow> Anonymous
      | Some i \<Rightarrow> (case load_user st i of None \<Rightarrow> Anonymous | Some u \<Rightarrow> Authenticated u))"

definition login_user :: "app_state \<Rightarrow> user \<Rightarrow> app_state" where
  "login_user st u = st\<lparr>session_user_id := Some (u_id u)\<rparr>"

definition logout_user :: "app_state \<Rightarrow> app_state" where
  "logout_user st = st\<lparr>session_user_id := None\<rparr>"

definition flash :: "app_state \<Rightarrow> string \<Rightarrow> app_state" where
  "flash st msg = st\<lparr>flashes := flashes st @ [msg]\<rparr>"

section \<open>The admin guard (lines 98--109)\<close>

text \<open>
  The decision the decorator takes before it calls the wrapped function, from the
  current user and \<open>request.url\<close>.
\<close>

datatype decision = Allow | DenyWithRedirect string | DenyForbidden

fun admin_only_decision :: "identity \<Rightarrow> string \<Rightarrow> decision" where
  "admin_only_decision Anonymous u = DenyWithRedirect u"
| "admin_only_decision (Authenticated usr) u = (if u_id usr \<noteq> 1 then DenyForbidden else Allow)"

definition admin_only :: "handler \<Rightarrow> handler" where
  "admin_only f e st req =
     (case admin_only_decision (current_user st) (url req) of
        DenyWithRedirect nxt \<Rightarrow> (st, Redirect ''login'' [(''next'', nxt)])
      | DenyForbidden \<Rightarrow> (st, Abort 403)
      | Allow \<Rightarrow> f e st req)"

section \<open>Forms\<close>

text \<open>
  Flask-WTF binds \<open>request.form\<close> to a form only when the request is submitted (here: a
  POST). \<open>validate_on_submit\<close> is \<open>is_submitted() and validate()\<close>; a bare
  \<open>validate()\<close> on a GET runs the validators on no data. \<open>request.form[key]\<close>
  raises a 400 when the key is missing; \<open>request.form.get(key)\<close> gives \<open>None\<close>.
\<close>

definition is_submitted :: "request \<Rightarrow> bool" where
  "is_submitted req = (meth req = POST)"

definition formdata :: "request \<Rightarrow> (string \<times> string) list" where
  "formdata req = (if is_submitted req then form req else [])"

definition validate_form :: "env \<Rightarrow> form_class \<Rightarrow> request \<Rightarrow> bool" where
  "validate_form e c req = validate e c (formdata req)"

definition validate_on_submit :: "env \<Rightarrow> form_class \<Rightarrow> request \<Rightarrow> bool" where
  "validate_on_submit e c req = (is_submitted req \<and> validate_form e c req)"

definition form_get :: "request \<Rightarrow> string \<Rightarrow> string option" where
  "form_get req k = map_of (form req) k"

section \<open>The clock: \<open>strftime("%B %d, %Y")\<close>\<close>

fun month_name :: "month \<Rightarrow> string" where
  "month_name January = ''January''"
| "month_name February = ''February''"
| "month_name March = ''March''"
| "month_name April = ''April''"
| "month_name May = ''May''"
| "month_name June = ''June''"
| "month_name July = ''July''"
| "month_name August = ''August''"
| "month_name September = ''September''"
| "month_name October = ''October''"
| "month_name November = ''November''"
| "month_name December = ''December''"

definition digit_char :: "nat \<Rightarrow> char" where
  "digit_char d = char_of (48 + d)"

fun decimal :: "nat \<Rightarrow> string" where
  "decimal n = (if n < 10 then [digit_char n] else decimal (n div 10) @ [digit_char (n mod 10)])"

definition two_digits :: "nat \<Rightarrow> string" where
  "two_digits n = (if n < 10 then CHR ''0'' # decimal n else decimal n)"

definition strftime_B_d_Y :: "datetime \<Rightarrow> string" where
  "strftime_B_d_Y d = month_name (month_of d) @ '' '' @ two_digits (day d) @ '', '' @ decimal (year d)"

section \<open>Handlers\<close>

subsection \<open>Base routes (lines 114--148)\<close>

definition get_all_posts :: handler where
  "get_all_posts e st req = (st, Render ''index.html'' None)"

definition about :: handler where
  "about e st req = (st, Render ''about.html'' None)"

definition email_message :: "string \<Rightarrow> string \<Rightarrow> string \<Rightarrow> string \<Rightarrow> string" where
  "email_message name email phone_number message =
     ''Name: '' @ name @ '', EmailAddress: '' @ email @ '', PhoneNumber: '' @ phone_number
       @ [CHR 0x0A] @ message"

text \<open>The SMTP session either delivers the message or raises.\<close>

definition send_emails :: "env \<Rightarrow> app_state \<Rightarrow> string \<Rightarrow> string \<Rightarrow> string \<Rightarrow> string \<Rightarrow> app_state option" where
  "send_emails e st name email phone_number message =
     (if smtp_ok e then Some (st\<lparr>outbox := outbox st @ [email_message name email phone_number message]\<rparr>)
      else None)"

definition contact :: handler where
  "contact e st req =
     (if meth req = POST then
        (case form_get req ''name'' of None \<Rightarrow> (st, Abort 400) | Some name \<Rightarrow>
         case form_get req ''email'' of None \<Rightarrow> (st, Abort 400) | Some email \<Rightarrow>
         case form_get req ''phone'' of None \<Rightarrow> (st, Abort 400) | Some phone_number \<Rightarrow>
         case form_get req ''message'' of None \<Rightarrow> (st, Abort 400) | Some message \<Rightarrow>
         case send_emails e st name email phone_number message of
           None \<Rightarrow> (st, ServerError)
         | Some st' \<Rightarrow> (st', Render ''contact.html'' None))
      else (st, Render ''contact.html'' None))"

subsection \<open>Viewing a post and commenting (lines 150--168)\<close>

text \<open>
  The lookup is the first statement of the handler, before the form is looked at: when it
  raises, the request fails and nothing else happens. \<open>BlogPost.query.get\<close> gives
  \<open>None\<close> for an id with no row, and the handler goes on with it: the new comment
  then has no parent post, and its \<open>post_id\<close> is NULL.
\<close>

definition show_post :: "nat \<Rightarrow> handler" where
  "show_post index e st req =
     (case blog_post_query_get (blog_posts st) index of
        None \<Rightarrow> (st, ServerError)
      | Some requested_post \<Rightarrow>
          if validate_on_submit e CommentForm req then
            (case current_user st of
               Anonymous \<Rightarrow>
                 (flash st ''You need to login or register before commenting.'',
                  Redirect ''login'' [])
             | Authenticated usr \<Rightarrow>
                 (case form_get req ''comment_body'' of
                    None \<Rightarrow> (st, Abort 400)
                  | Some body \<Rightarrow>
                      (st\<lparr>comments := comments st @
                            [\<lparr>c_id = next_id (map c_id (comments st)),
                              c_author_id = Some (u_id usr),
                              c_post_id = map_option p_id requested_post, c_text = body\<rparr>]\<rparr>,
                       Render ''post.html'' requested_post)))
          else (st, Render ''post.html'' requested_post))"

subsection \<open>Registration, login, logout (lines 172--235)\<close>

definition register :: handler where
  "register e st req =
     (if validate_form e RegisterForm req then
        (case form_get req ''email'' of None \<Rightarrow> (st, Abort 400) | Some email \<Rightarrow>
         case filter_by_email_first (users st) email of
           None \<Rightarrow>
             (case form_get req ''password'' of None \<Rightarrow> (st, Abort 400) | Some password_to_hash \<Rightarrow>
              let hashed_password = generate_password_hash e password_to_hash in
              case form_get req ''name'' of None \<Rightarrow> (st, Abort 400) | Some name \<Rightarrow>
              case add_user (users st) email hashed_password name of
                None \<Rightarrow> (st, ServerError)
              | Some us \<Rightarrow> (st\<lparr>users := us\<rparr>, Redirect ''get_all_posts'' []))
         | Some check_user \<Rightarrow>
             (flash st ''You've already signed up with that email, please login.'',
              Redirect ''login'' []))
      else (st, Render ''register.html'' None))"

definition login :: handler where
  "login e st req =
     (if validate_on_submit e LoginForm req then
        (case form_get req ''email'' of None \<Rightarrow> (st, Abort 400) | Some email \<Rightarrow>
         case form_get req ''password'' of None \<Rightarrow> (st, Abort 400) | Some password \<Rightarrow>
         case filter_by_email_first (users st) email of
           Some usr \<Rightarrow>
             if check_password_hash e (u_password usr) password
             then (login_user st usr, Redirect ''get_all_posts'' [])
             else (flash st ''Incorrect password, try again.'', Redirect ''login'' [])
         | None \<Rightarrow>
             (flash st ''That email doesn't exist, please try again.'', Redirect ''login'' []))
      else (st, Render ''login.html'' None))"

definition logout :: handler where
  "logout e st req = (logout_user st, Redirect ''get_all_posts'' [])"

subsection \<open>Creating, editing and deleting posts (lines 240--308)\<close>

text \<open>
  The bodies of the three protected handlers, before the decorator. \<open>current_user.id\<close>
  raises on the anonymous user, \<open>post_to_edit.title\<close> on \<open>None\<close>, and
  \<open>db.session.delete(None)\<close> too; a commit that breaks a constraint raises an
  IntegrityError. Nothing catches them. An id that SQLite cannot bind is the id of no
  stored row: the lookup of \<open>edit_post\<close> and \<open>delete_post\<close> raises for it where
  \<open>query_get_post\<close> finds nothing, and the request fails in both.
\<close>

definition new_post_body :: handler where
  "new_post_body e st req =
     (if validate_on_submit e CreatePostForm req then
        (let posted_date = now e in
         case form_get req ''title'' of None \<Rightarrow> (st, Abort 400) | Some title \<Rightarrow>
         case form_get req ''subtitle'' of None \<Rightarrow> (st, Abort 400) | Some subtitle \<Rightarrow>
         case current_user st of Anonymous \<Rightarrow> (st, ServerError) | Authenticated usr \<Rightarrow>
         case form_get req ''img_url'' of None \<Rightarrow> (st, Abort 400) | Some img \<Rightarrow>
         case add_post (blog_posts st) title subtitle (u_id usr) (strftime_B_d_Y posted_date) img
                (form_get req ''body'') of
           None \<Rightarrow> (st, ServerError)
         | Some ps \<Rightarrow> (st\<lparr>blog_posts := ps\<rparr>, Redirect ''get_all_posts'' []))
      else (st, Render ''make-post.html'' None))"

definition edit_post_body :: "nat \<Rightarrow> handler" where
  "edit_post_body index e st req =
     (case query_get_post (blog_posts st) index of
        None \<Rightarrow> (st, ServerError)
      | Some post_to_edit \<Rightarrow>
          if validate_on_submit e CreatePostForm req then
            (let posted_date = now e in
             case form_get req ''title'' of None \<Rightarrow> (st, Abort 400) | Some title \<Rightarrow>
             case form_get req ''subtitle'' of None \<Rightarrow> (st, Abort 400) | Some subtitle \<Rightarrow>
             case form_get req ''img_url'' of None \<Rightarrow> (st, Abort 400) | Some img \<Rightarrow>
             case update_post (blog_posts st) index title subtitle (strftime_B_d_Y posted_date) img
                    (form_get req ''body'') of
               None \<Rightarrow> (st, ServerError)
             | Some ps \<Rightarrow> (st\<lparr>blog_posts := ps\<rparr>, Redirect ''get_all_posts'' []))
          else (st, Render ''make-post.html'' (Some post_to_edit)))"

definition delete_post_body :: "nat \<Rightarrow> handler" where
  "delete_post_body index e st req =
     (case query_get_post (blog_posts st) index of
        None \<Rightarrow> (st, ServerError)
      | Some post_to_delete \<Rightarrow>
          (session_delete_post st (p_id post_to_delete), Redirect ''get_all_posts'' []))"

definition new_post :: handler where
  "new_post = admin_only new_post_body"

definition edit_post :: "nat \<Rightarrow> handler" where
  "edit_post index = admin_only (edit_post_body index)"

definition delete_post :: "nat \<Rightarrow> handler" where
  "delete_post index = admin_only (delete_post_body index)"

subsection \<open>The routing table\<close>

datatype route =
    R_get_all_posts | R_about | R_contact | R_show_post nat | R_register | R_login | R_logout
  | R_new_post | R_edit_post nat | R_delete_post nat

text \<open>A route declared without \<open>methods\<close> answers a POST with 405.\<close>

fun accepts_post :: "route \<Rightarrow> bool" where
  "accepts_post R_get_all_posts = False"
| "accepts_post R_about = False"
| "accepts_post R_logout = False"
| "accepts_post (R_delete_post i) = False"
| "accepts_post r = True"

fun view_function :: "route \<Rightarrow> handler" where
  "view_function R_get_all_posts = get_all_posts"
| "view_function R_about = about"
| "view_function R_contact = contact"
| "view_function (R_show_post i) = show_post i"
| "view_function R_register = register"
| "view_function R_login = login"
| "view_function R_logout = logout"
| "view_function R_new_post = new_post"
| "view_function (R_edit_post i) = edit_post i"
| "view_function (R_delete_post i) = delete_post i"

definition dispatch :: "route \<Rightarrow> handler" where
  "dispatch r e st req =
     (if meth req = POST \<and> \<not> accepts_post r then (st, Abort 405) else view_function r e st req)"

section \<open>A small instance\<close>

text \<open>
  Concrete data on which the theorems below are run: the admin (id 1), a reader (id 2),
  one post with one comment, and an environment whose validators accept every form. Its
  hash functions are stand-ins that only tag the password: the general theorems hold for
  every environment, and the stand-ins serve the concrete runs only.
\<close>

definition admin_user :: user where
  "admin_user = \<lparr>u_id = 1, u_email = ''ann@x.com'', u_password = ''h$pw1'', u_name = ''Ann''\<rparr>"

definition reader_user :: user where
  "reader_user = \<lparr>u_id = 2, u_email = ''bob@x.com'', u_password = ''h$pw2'', u_name = ''Bob''\<rparr>"

definition first_post :: blog_post where
  "first_post = \<lparr>p_id = 1, p_author_id = Some 1, p_title = ''T1'', p_subtitle = ''S1'',
                  p_date = ''January 05, 2020'', p_body = ''B1'', p_img_url = ''I1''\<rparr>"

definition first_comment :: comment where
  "first_comment = \<lparr>c_id = 1, c_author_id = Some 2, c_post_id = Some 1, c_text = ''hi''\<rparr>"

definition demo_env :: env where
  "demo_env = \<lparr>validate = (\<lambda>c d. True),
               generate_password_hash = (\<lambda>p. ''h$'' @ p),
               check_password_hash = (\<lambda>h p. h = ''h$'' @ p),
               now = \<lparr>year = 2026, month_of = November, day = 3\<rparr>,
               smtp_ok = True\<rparr>"

definition demo_state :: "nat option \<Rightarrow> app_state" where
  "demo_state s = \<lparr>users = [admin_user, reader_user], blog_posts = [first_post],
                   comments = [first_comment], session_user_id = s, flashes = [],
                   outbox = []\<rparr>"

definition post_request :: "string \<Rightarrow> (string \<times> string) list \<Rightarrow> request" where
  "post_request u f = \<lparr>meth = POST, url = u, form = f\<rparr>"

definition get_request :: "string \<Rightarrow> request" where
  "get_request u = \<lparr>meth = GET, url = u, form = []\<rparr>"

definition comment_request :: request where
  "comment_request = post_request ''/post/1'' [(''comment_body'', ''hello'')]"

definition huge_id_request :: request where
  "huge_id_request = post_request ''/post/9223372036854775808'' [(''comment_body'', ''hello'')]"

definition ann_again :: request where
  "ann_again = post_request ''/register''
     [(''email'', ''ann@x.com''), (''password'', ''pw9''), (''name'', ''Ann2'')]"

definition admin_state :: app_state where
  "admin_state = demo_state (Some 1)"

definition reader_state :: app_state where
  "reader_state = demo_state (Some 2)"

definition duplicate_title_request :: request where
  "duplicate_title_request = post_request ''/new-post''
     [(''title'', ''T1''), (''subtitle'', ''S2''), (''img_url'', ''I2''), (''body'', ''B2'')]"

definition orphan_comment_request :: request where
  "orphan_comment_request = post_request ''/post/7'' [(''comment_body'', ''hello'')]"

definition delete_request :: request where
  "delete_request = get_request ''/delete/1''"

definition edit_request :: request where
  "edit_request = post_request ''/edit-post/1''
     [(''title'', ''T2''), (''subtitle'', ''S2''), (''img_url'', ''I2''), (''body'', ''B2'')]"

definition edited_post :: blog_post where
  "edited_post = \<lparr>p_id = 1, p_author_id = Some 1, p_title = ''T2'', p_subtitle = ''S2'',
                   p_date = ''November 03, 2026'', p_body = ''B2'', p_img_url = ''I2''\<rparr>"

text \<open>
  The session cookie is written by \<open>login_user\<close> only, with the id of a stored user,
  and no user is ever deleted: in every state the application reaches, the id in the
  session is the id of a row of the user table.
\<close>

definition session_valid :: "app_state \<Rightarrow> bool" where
  "session_valid st =
     (case session_user_id st of None \<Rightarrow> True | Some i \<Rightarrow> i \<in> set (map u_id (users st)))"

definition bad_login_request :: request where
  "bad_login_request = post_request ''/login'' [(''email'', ''ann@x.com''), (''password'', ''nope'')]"

definition unknown_login_request :: request where
  "unknown_login_request = post_request ''/login'' [(''email'', ''eve@x.com''), (''password'', ''pw1'')]"

definition good_login_request :: request where
  "good_login_request = post_request ''/login'' [(''email'', ''ann@x.com''), (''password'', ''pw1'')]"

section \<open>The admin guard\<close>

text \<open>
  C1. The guard allows exactly the identity whose user id is the admin id 1, denies with a
  redirect to the login page that carries the requested URL exactly when the identity is
  anonymous, and denies with 403 in every other case; the decorated handler runs the
  wrapped function only when the guard allows.
\<close>

theorem admin_only_guard:
  "(admin_only_decision i u = Allow) = (\<exists>usr. i = Authenticated usr \<and> u_id usr = 1)
   \<and> (admin_only_decision i u = DenyWithRedirect u) = (i = Anonymous)
   \<and> (admin_only_decision i u = DenyForbidden)
        = (i \<noteq> Anonymous \<and> \<not> (\<exists>usr. i = Authenticated usr \<and> u_id usr = 1))
   \<and> admin_only f e st req =
        (if current_user st = Anonymous then (st, Redirect ''login'' [(''next'', url req)])
         else if \<exists>usr. current_user st = Authenticated usr \<and> u_id usr = 1 then f e st req
         else (st, Abort 403))"
  by (cases i; cases "current_user st") (auto simp: admin_only_def)

theorem admin_only_guard_witness:
  "admin_only_decision (Authenticated admin_user) ''/new-post'' = Allow
   \<and> admin_only_decision (Authenticated reader_user) ''/new-post'' = DenyForbidden
   \<and> admin_only_decision Anonymous ''/new-post'' = DenyWithRedirect ''/new-post''"
  using admin_only_guard [of "Authenticated admin_user" "''/new-post''"]
    admin_only_guard [of "Authenticated reader_user" "''/new-post''"]
    admin_only_guard [of Anonymous "''/new-post''"]
  by (simp add: admin_user_def reader_user_def)

section \<open>Lookups\<close>

lemma find_member: "x \<in> set xs \<Longrightarrow> P x \<Longrightarrow> \<exists>y. find P xs = Some y \<and> P y \<and> y \<in> set xs"
  by (induction xs) auto

lemma filter_by_email_first_taken:
  "E \<in> set (map u_email us) \<Longrightarrow> \<exists>u. filter_by_email_first us E = Some u \<and> u_email u = E"
  unfolding filter_by_email_first_def using find_member [of _ us "\<lambda>u. u_email u = E"] by auto

section \<open>Commenting\<close>

lemma sqlite_binds_small: "sqlite_binds 1" "sqlite_binds 7"
  by (simp_all add: sqlite_binds_def)

lemma sqlite_binds_huge: "\<not> sqlite_binds 9223372036854775808"
  by (simp add: sqlite_binds_def)

text \<open>
  Nobody is logged in, and a valid comment form is posted to
  \<open>/post/9223372036854775808\<close>. The lookup of the post raises before the form is
  looked at: the request fails, with no flashed notice and no redirect to the login page.
\<close>

theorem show_post_anonymous_counterexample:
  "show_post 9223372036854775808 demo_env (demo_state None) huge_id_request
     = (demo_state None, ServerError)"
  by (simp add: show_post_def blog_post_query_get_def sqlite_binds_huge)

text \<open>
  C2, as amended. A POST of a comment form that validates, made while nobody is logged in,
  creates no comment: the comment table, like the two other tables, is what it was. When
  the post id is below \<open>2^63\<close> the answer is a redirect to the login page (after a
  flashed notice); for an id of \<open>2^63\<close> or more the lookup of the post fails and the
  request ends as a server error.
\<close>

theorem show_post_anonymous:
  assumes "validate_on_submit e CommentForm req" and "current_user st = Anonymous"
  shows "show_post index e st req
           = (if index < 2 ^ 63
              then (flash st ''You need to login or register before commenting.'',
                    Redirect ''login'' [])
              else (st, ServerError))
         \<and> comments (fst (show_post index e st req)) = comments st
         \<and> users (fst (show_post index e st req)) = users st
         \<and> blog_posts (fst (show_post index e st req)) = blog_posts st"
  using assms by (simp add: show_post_def blog_post_query_get_def sqlite_binds_def flash_def)

theorem show_post_anonymous_witness:
  "validate_on_submit demo_env CommentForm comment_request
   \<and> current_user (demo_state None) = Anonymous
   \<and> snd (show_post 1 demo_env (demo_state None) comment_request) = Redirect ''login'' []
   \<and> comments (fst (show_post 1 demo_env (demo_state None) comment_request)) = [first_comment]"
proof -
  have v: "validate_on_submit demo_env CommentForm comment_request"
    by (simp add: validate_on_submit_def is_submitted_def validate_form_def demo_env_def
        comment_request_def post_request_def)
  have a: "current_user (demo_state None) = Anonymous"
    by (simp add: current_user_def demo_state_def)
  show ?thesis
    using v a show_post_anonymous [OF v a, of 1] by (simp add: demo_state_def flash_def)
qed

section \<open>Registration\<close>

text \<open>
  C5. When some user already has the email of a registration form that validates, the
  handler takes the conflict branch: it flashes the notice and redirects to the login
  page, and the user table is unchanged, so no second row with that email exists.
\<close>

theorem register_taken_email:
  assumes "validate_form e RegisterForm req" and "form_get req ''email'' = Some E"
    and "E \<in> set (map u_email (users st))"
  shows "register e st req
           = (flash st ''You've already signed up with that email, please login.'',
              Redirect ''login'' [])
         \<and> users (fst (register e st req)) = users st
         \<and> session_user_id (fst (register e st req)) = session_user_id st"
proof -
  obtain u where "filter_by_email_first (users st) E = Some u"
    using filter_by_email_first_taken [OF assms(3)] by blast
  then show ?thesis using assms(1,2) by (simp add: register_def flash_def)
qed

theorem register_taken_email_witness:
  "validate_form demo_env RegisterForm ann_again
   \<and> form_get ann_again ''email'' = Some ''ann@x.com''
   \<and> ''ann@x.com'' \<in> set (map u_email (users (demo_state None)))
   \<and> snd (register demo_env (demo_state None) ann_again) = Redirect ''login'' []
   \<and> users (fst (register demo_env (demo_state None) ann_again)) = [admin_user, reader_user]"
proof -
  have v: "validate_form demo_env RegisterForm ann_again"
    by (simp add: validate_form_def demo_env_def)
  have k: "form_get ann_again ''email'' = Some ''ann@x.com''"
    by (simp add: form_get_def ann_again_def post_request_def)
  have m: "''ann@x.com'' \<in> set (map u_email (users (demo_state None)))"
    by (simp add: demo_state_def admin_user_def)
  show ?thesis
    using v k m register_taken_email [OF v k m] by (simp add: demo_state_def flash_def)
qed

section \<open>Facts about the small instance\<close>

lemma admin_state_tables:
  "users admin_state = [admin_user, reader_user]" "blog_posts admin_state = [first_post]"
  "comments admin_state = [first_comment]" "flashes admin_state = []"
  by (simp_all add: admin_state_def demo_state_def)

lemma reader_state_tables:
  "users reader_state = [admin_user, reader_user]" "blog_posts reader_state = [first_post]"
  "comments reader_state = [first_comment]" "flashes reader_state = []"
  by (simp_all add: reader_state_def demo_state_def)

lemma u_id_admin_user: "u_id admin_user = 1"
  by (simp add: admin_user_def)

lemma current_user_demo_admin: "current_user admin_state = Authenticated admin_user"
  by (simp add: current_user_def admin_state_def demo_state_def load_user_def query_get_user_def
      admin_user_def)

lemma current_user_demo_reader: "current_user reader_state = Authenticated reader_user"
  by (simp add: current_user_def reader_state_def demo_state_def load_user_def query_get_user_def
      admin_user_def reader_user_def)

lemma validate_on_submit_demo: "validate_on_submit demo_env c req = (meth req = POST)"
  by (simp add: validate_on_submit_def is_submitted_def validate_form_def demo_env_def)

section \<open>A new post whose title is taken\<close>

text \<open>
  The handler does not look for the title before it commits, and nothing catches the
  IntegrityError of the commit. With the post \<open>T1\<close> in the table, the admin's valid form
  for another post \<open>T1\<close> ends in the failure of the request: there is no flashed
  message and no page is rendered.
\<close>

theorem new_post_duplicate_title_counterexample:
  "new_post demo_env admin_state duplicate_title_request = (admin_state, ServerError)"
  by (simp add: new_post_def admin_only_def new_post_body_def current_user_demo_admin
      duplicate_title_request_def validate_on_submit_demo u_id_admin_user add_post_def
      form_get_def post_request_def admin_state_tables first_post_def)

text \<open>
  C6, as amended. When a post with title \<open>T\<close> exists and the admin submits a valid
  new-post form with the title \<open>T\<close> (subtitle and image URL present), the commit breaks
  the unique constraint and the request fails with the unhandled error; the state is
  unchanged: no post is added and no message is flashed.
\<close>

theorem new_post_duplicate_title:
  assumes "validate_on_submit e CreatePostForm req"
    and "current_user st = Authenticated usr" and "u_id usr = 1"
    and "form_get req ''title'' = Some T" and "T \<in> set (map p_title (blog_posts st))"
    and "form_get req ''subtitle'' = Some S" and "form_get req ''img_url'' = Some I"
  shows "new_post e st req = (st, ServerError)"
  using assms
  by (simp add: new_post_def admin_only_def new_post_body_def add_post_def split: option.splits)

theorem new_post_duplicate_title_witness:
  "validate_on_submit demo_env CreatePostForm duplicate_title_request
   \<and> current_user admin_state = Authenticated admin_user \<and> u_id admin_user = 1
   \<and> form_get duplicate_title_request ''title'' = Some ''T1''
   \<and> ''T1'' \<in> set (map p_title (blog_posts admin_state))
   \<and> form_get duplicate_title_request ''subtitle'' = Some ''S2''
   \<and> form_get duplicate_title_request ''img_url'' = Some ''I2''
   \<and> blog_posts (fst (new_post demo_env admin_state duplicate_title_request)) = [first_post]
   \<and> flashes (fst (new_post demo_env admin_state duplicate_title_request)) = []"
proof -
  have v: "validate_on_submit demo_env CreatePostForm duplicate_title_request"
    by (simp add: duplicate_title_request_def validate_on_submit_demo post_request_def)
  have i: "u_id admin_user = 1" by (simp add: admin_user_def)
  have t: "form_get duplicate_title_request ''title'' = Some ''T1''"
    by (simp add: form_get_def duplicate_title_request_def post_request_def)
  have m: "''T1'' \<in> set (map p_title (blog_posts admin_state))"
    by (simp add: admin_state_tables first_post_def)
  have s: "form_get duplicate_title_request ''subtitle'' = Some ''S2''"
    by (simp add: form_get_def duplicate_title_request_def post_request_def)
  have g: "form_get duplicate_title_request ''img_url'' = Some ''I2''"
    by (simp add: form_get_def duplicate_title_request_def post_request_def)
  show ?thesis
    using v i t m s g new_post_duplicate_title [OF v current_user_demo_admin i t m s g]
    by (simp add: current_user_demo_admin) (simp add: admin_state_tables reader_state_tables)
qed

section \<open>A comment on a post that does not exist\<close>

text \<open>
  The reader (id 2), logged in, posts a valid comment to \<open>/post/7\<close>, and there is no
  post 7. No check of the looked-up post stands before the insert: a second comment row
  is stored, with no parent post, and the post page is rendered with no post.
\<close>

theorem show_post_missing_post_counterexample:
  "show_post 7 demo_env reader_state orphan_comment_request
     = (reader_state\<lparr>comments := [first_comment,
           \<lparr>c_id = 2, c_author_id = Some 2, c_post_id = None, c_text = ''hello''\<rparr>]\<rparr>,
        Render ''post.html'' None)"
  by (simp add: show_post_def blog_post_query_get_def sqlite_binds_small
      orphan_comment_request_def validate_on_submit_demo
      current_user_demo_reader reader_state_tables query_get_post_def first_post_def
      form_get_def post_request_def next_id_def first_comment_def reader_user_def)

text \<open>
  C7, as amended. When an authenticated user submits a valid comment form (with its
  \<open>comment_body\<close>) to a post id below \<open>2^63\<close> that has no row, the handler stores a
  comment with the next id, the user as author, the submitted text and a NULL
  \<open>post_id\<close>, and renders the post page with no post; the other tables and the session
  are unchanged. For an id of \<open>2^63\<close> or more the lookup itself fails: the request
  ends as a server error and the state is unchanged.
\<close>

theorem show_post_missing_post:
  assumes "validate_on_submit e CommentForm req" and "current_user st = Authenticated usr"
    and "query_get_post (blog_posts st) index = None"
    and "form_get req ''comment_body'' = Some body"
  shows "show_post index e st req
           = (if index < 2 ^ 63
              then (st\<lparr>comments := comments st @
                      [\<lparr>c_id = next_id (map c_id (comments st)), c_author_id = Some (u_id usr),
                        c_post_id = None, c_text = body\<rparr>]\<rparr>,
                    Render ''post.html'' None)
              else (st, ServerError))"
  using assms by (simp add: show_post_def blog_post_query_get_def sqlite_binds_def)

theorem show_post_missing_post_witness:
  "validate_on_submit demo_env CommentForm orphan_comment_request
   \<and> current_user reader_state = Authenticated reader_user
   \<and> query_get_post (blog_posts reader_state) 7 = None
   \<and> form_get orphan_comment_request ''comment_body'' = Some ''hello''
   \<and> length (comments (fst (show_post 7 demo_env reader_state orphan_comment_request))) = 2
   \<and> snd (show_post 7 demo_env reader_state orphan_comment_request) = Render ''post.html'' None"
proof -
  have v: "validate_on_submit demo_env CommentForm orphan_comment_request"
    by (simp add: orphan_comment_request_def validate_on_submit_demo post_request_def)
  have q: "query_get_post (blog_posts reader_state) 7 = None"
    by (simp add: query_get_post_def reader_state_tables first_post_def)
  have b: "form_get orphan_comment_request ''comment_body'' = Some ''hello''"
    by (simp add: form_get_def orphan_comment_request_def post_request_def)
  show ?thesis
    using v q b show_post_missing_post [OF v current_user_demo_reader q b]
    by (simp add: current_user_demo_reader) (simp add: admin_state_tables reader_state_tables)
qed

section \<open>Deleting a post\<close>

lemma query_get_post_id: "query_get_post ps i = Some p \<Longrightarrow> p_id p = i \<and> p \<in> set ps"
  unfolding query_get_post_def by (induction ps) (auto split: if_splits)

lemma query_get_post_filter_other: "query_get_post (filter (\<lambda>p. p_id p \<noteq> i) ps) i = None"
  unfolding query_get_post_def by (induction ps) auto

text \<open>
  The admin deletes post 1, which has one comment. The comment row stays, but it is not
  unchanged: its \<open>post_id\<close> was 1 and is NULL afterwards, so it does not reference the
  missing post.
\<close>

theorem delete_post_comments_counterexample:
  "delete_post 1 demo_env admin_state delete_request
     = (admin_state\<lparr>blog_posts := [],
           comments := [\<lparr>c_id = 1, c_author_id = Some 2, c_post_id = None, c_text = ''hi''\<rparr>]\<rparr>,
        Redirect ''get_all_posts'' [])"
  by (simp add: delete_post_def admin_only_def delete_post_body_def current_user_demo_admin
      u_id_admin_user admin_state_tables query_get_post_def first_post_def session_delete_post_def
      nullify_post_def first_comment_def)

text \<open>
  C9, as amended. When the admin deletes an existing post, the post table loses the rows
  with that id and nothing else, a later lookup of the id finds nothing, and the user
  table is unchanged. No comment is deleted: the comment table keeps its length and every
  comment keeps its id, author and text. The \<open>post_id\<close> of a comment of the deleted post
  becomes NULL and every other \<open>post_id\<close> is unchanged, so afterwards no comment
  references the deleted post.
\<close>

theorem delete_post_nullifies_comments:
  assumes "current_user st = Authenticated usr" and "u_id usr = 1"
    and "query_get_post (blog_posts st) index = Some p"
  shows "\<exists>st'. delete_post index e st req = (st', Redirect ''get_all_posts'' [])
           \<and> blog_posts st' = filter (\<lambda>q. p_id q \<noteq> index) (blog_posts st)
           \<and> query_get_post (blog_posts st') index = None
           \<and> users st' = users st
           \<and> length (comments st') = length (comments st)
           \<and> map c_id (comments st') = map c_id (comments st)
           \<and> map c_author_id (comments st') = map c_author_id (comments st)
           \<and> map c_text (comments st') = map c_text (comments st)
           \<and> (\<forall>k < length (comments st).
                 c_post_id (comments st' ! k)
                   = (if c_post_id (comments st ! k) = Some index then None
                      else c_post_id (comments st ! k)))
           \<and> (\<forall>c \<in> set (comments st'). c_post_id c \<noteq> Some index)"
proof -
  have i: "p_id p = index" using query_get_post_id [OF assms(3)] by simp
  have d: "delete_post index e st req = (session_delete_post st index, Redirect ''get_all_posts'' [])"
    using assms i by (simp add: delete_post_def admin_only_def delete_post_body_def)
  have c1: "map c_id (map (nullify_post index) cs) = map c_id cs" for cs
    by (induction cs) (auto simp: nullify_post_def)
  have c2: "map c_author_id (map (nullify_post index) cs) = map c_author_id cs" for cs
    by (induction cs) (auto simp: nullify_post_def)
  have c3: "map c_text (map (nullify_post index) cs) = map c_text cs" for cs
    by (induction cs) (auto simp: nullify_post_def)
  show ?thesis
    unfolding d
    by (rule exI [of _ "session_delete_post st index"])
      (auto simp: session_delete_post_def query_get_post_filter_other c1 c2 c3 nullify_post_def)
qed

theorem delete_post_nullifies_comments_witness:
  "current_user admin_state = Authenticated admin_user \<and> u_id admin_user = 1
   \<and> query_get_post (blog_posts admin_state) 1 = Some first_post
   \<and> snd (delete_post 1 demo_env admin_state delete_request) = Redirect ''get_all_posts'' []
   \<and> query_get_post (blog_posts (fst (delete_post 1 demo_env admin_state delete_request))) 1
        = None
   \<and> map c_id (comments (fst (delete_post 1 demo_env admin_state delete_request))) = [1]
   \<and> map c_text (comments (fst (delete_post 1 demo_env admin_state delete_request))) = [''hi'']
   \<and> length (comments (fst (delete_post 1 demo_env admin_state delete_request))) = 1"
proof -
  have q: "query_get_post (blog_posts admin_state) 1 = Some first_post"
    by (simp add: admin_state_tables query_get_post_def first_post_def)
  show ?thesis
    using q u_id_admin_user
      delete_post_nullifies_comments [OF current_user_demo_admin u_id_admin_user q,
        of demo_env delete_request]
    by (auto simp: current_user_demo_admin admin_state_tables first_comment_def)
qed

section \<open>Editing a post\<close>

lemma strftime_demo: "strftime_B_d_Y (now demo_env) = ''November 03, 2026''"
  by code_simp


lemma find_map_update:
  assumes "find (\<lambda>p. p_id p = i) ps = Some old" and "\<And>p. p_id (f p) = p_id p"
  shows "find (\<lambda>p. p_id p = i) (map (\<lambda>p. if p_id p = i then f p else p) ps) = Some (f old)"
  using assms by (induction ps) (auto split: if_splits)

lemma update_post_result:
  assumes "update_post ps i title subtitle date img body = Some ps'"
    and "query_get_post ps i = Some old"
  shows "\<exists>b. body = Some b
           \<and> query_get_post ps' i
               = Some (old\<lparr>p_title := title, p_subtitle := subtitle, p_date := date,
                          p_img_url := img, p_body := b\<rparr>)
           \<and> length ps' = length ps
           \<and> (\<forall>k < length ps. p_id (ps ! k) \<noteq> i \<longrightarrow> ps' ! k = ps ! k)"
proof (cases body)
  case None
  with assms(1) show ?thesis by (simp add: update_post_def)
next
  case (Some b)
  let ?f = "\<lambda>p. p\<lparr>p_title := title, p_subtitle := subtitle, p_date := date,
                     p_img_url := img, p_body := b\<rparr>"
  have ps': "ps' = map (\<lambda>p. if p_id p = i then ?f p else p) ps"
    using assms(1) Some by (simp add: update_post_def split: if_splits)
  have "find (\<lambda>p. p_id p = i) ps' = Some (?f old)"
    unfolding ps' using assms(2) by (intro find_map_update) (simp_all add: query_get_post_def)
  then show ?thesis using Some ps' by (simp add: query_get_post_def)
qed

text \<open>
  C10. A successful edit (the protected handler answers with the redirect to the home
  page) started from an existing post and leaves a post with the same id and the same
  author reference, whose title, subtitle, image URL and body are the submitted fields
  and whose date is the formatted date of the edit, whatever the date was before. The
  positions of the post table that hold another id keep their rows; users, comments and
  the session are unchanged.
\<close>

theorem edit_post_success:
  assumes "edit_post index e st req = (st', Redirect ''get_all_posts'' [])"
  shows "\<exists>old new. query_get_post (blog_posts st) index = Some old
           \<and> query_get_post (blog_posts st') index = Some new
           \<and> form_get req ''title'' = Some (p_title new)
           \<and> form_get req ''subtitle'' = Some (p_subtitle new)
           \<and> form_get req ''img_url'' = Some (p_img_url new)
           \<and> form_get req ''body'' = Some (p_body new)
           \<and> p_id new = p_id old \<and> p_author_id new = p_author_id old
           \<and> p_date new = strftime_B_d_Y (now e)
           \<and> length (blog_posts st') = length (blog_posts st)
           \<and> (\<forall>k < length (blog_posts st).
                 p_id (blog_posts st ! k) \<noteq> index \<longrightarrow> blog_posts st' ! k = blog_posts st ! k)
           \<and> users st' = users st \<and> comments st' = comments st
           \<and> session_user_id st' = session_user_id st"
proof -
  have b: "edit_post_body index e st req = (st', Redirect ''get_all_posts'' [])"
    using assms
    by (auto simp: edit_post_def admin_only_def split: decision.splits)
  then obtain old where old: "query_get_post (blog_posts st) index = Some old"
    by (auto simp: edit_post_body_def split: option.splits)
  from b old obtain title subtitle img ps where
    k: "form_get req ''title'' = Some title" "form_get req ''subtitle'' = Some subtitle"
       "form_get req ''img_url'' = Some img"
    and u: "update_post (blog_posts st) index title subtitle (strftime_B_d_Y (now e)) img
              (form_get req ''body'') = Some ps"
    and st': "st' = st\<lparr>blog_posts := ps\<rparr>"
    by (auto simp: edit_post_body_def split: option.splits if_splits)
  from update_post_result [OF u old] obtain bd where
    r: "form_get req ''body'' = Some bd"
       "query_get_post ps index
          = Some (old\<lparr>p_title := title, p_subtitle := subtitle,
                     p_date := strftime_B_d_Y (now e), p_img_url := img, p_body := bd\<rparr>)"
       "length ps = length (blog_posts st)"
       "\<forall>k < length (blog_posts st). p_id (blog_posts st ! k) \<noteq> index \<longrightarrow> ps ! k = blog_posts st ! k"
    by blast
  show ?thesis using old k r st' by simp
qed


theorem edit_post_success_witness:
  "edit_post 1 demo_env admin_state edit_request
     = (admin_state\<lparr>blog_posts := [edited_post]\<rparr>, Redirect ''get_all_posts'' [])
   \<and> (\<exists>old new. query_get_post (blog_posts admin_state) 1 = Some old
         \<and> query_get_post (blog_posts (admin_state\<lparr>blog_posts := [edited_post]\<rparr>)) 1 = Some new
         \<and> form_get edit_request ''title'' = Some (p_title new)
         \<and> p_id new = p_id old \<and> p_author_id new = p_author_id old
         \<and> p_date old = ''January 05, 2020'' \<and> p_date new = ''November 03, 2026'')"
proof -
  have h: "edit_post 1 demo_env admin_state edit_request
             = (admin_state\<lparr>blog_posts := [edited_post]\<rparr>, Redirect ''get_all_posts'' [])"
    by (simp add: edit_post_def admin_only_def edit_post_body_def current_user_demo_admin
        u_id_admin_user admin_state_tables query_get_post_def first_post_def edit_request_def
        validate_on_submit_demo post_request_def form_get_def update_post_def strftime_demo
        edited_post_def)
  have o: "query_get_post (blog_posts admin_state) 1 = Some first_post"
    by (simp add: admin_state_tables query_get_post_def first_post_def)
  have d: "p_date first_post = ''January 05, 2020''" by (simp add: first_post_def)
  show ?thesis
    using h o d edit_post_success [OF h] by (auto simp: strftime_demo)
qed

section \<open>Who is logged in\<close>

text \<open>
  What each handler does to the session and to the user table: only \<open>login\<close> and
  \<open>logout\<close> write the session, and only \<open>register\<close> adds a user row.
\<close>

lemma find_append_found: "find P xs = Some x \<Longrightarrow> find P (xs @ ys) = Some x"
  by (induction xs) (auto split: if_splits)

lemma query_get_user_present:
  "i \<in> set (map u_id us) \<Longrightarrow> \<exists>u. query_get_user us i = Some u \<and> u_id u = i"
  unfolding query_get_user_def using find_member [of _ us "\<lambda>u. u_id u = i"] by auto

lemma filter_by_email_first_member:
  "filter_by_email_first us em = Some u \<Longrightarrow> u \<in> set us"
  unfolding filter_by_email_first_def by (induction us) (auto split: if_splits)

lemma current_user_same:
  "session_user_id a = session_user_id b \<Longrightarrow> users a = users b \<Longrightarrow> current_user a = current_user b"
  by (simp add: current_user_def load_user_def split: option.splits)

lemma current_user_new_row:
  assumes "session_valid a" and "session_user_id b = session_user_id a"
    and "users b = users a @ [u]"
  shows "current_user b = current_user a"
proof (cases "session_user_id a")
  case None
  with assms(2) show ?thesis by (simp add: current_user_def)
next
  case (Some i)
  with assms(1) have "i \<in> set (map u_id (users a))" by (simp add: session_valid_def)
  then obtain x where x: "query_get_user (users a) i = Some x"
    using query_get_user_present by blast
  then have "query_get_user (users a @ [u]) i = Some x"
    unfolding query_get_user_def by (rule find_append_found)
  with x Some assms(2,3) show ?thesis by (simp add: current_user_def load_user_def)
qed

lemma admin_only_frame:
  assumes "\<And>s q. session_user_id (fst (f e s q)) = session_user_id s \<and> users (fst (f e s q)) = users s"
  shows "session_user_id (fst (admin_only f e st req)) = session_user_id st
         \<and> users (fst (admin_only f e st req)) = users st"
  using assms by (simp add: admin_only_def split: decision.splits)

lemma new_post_body_frame:
  "session_user_id (fst (new_post_body e st req)) = session_user_id st
   \<and> users (fst (new_post_body e st req)) = users st"
  by (simp add: new_post_body_def split: option.splits identity.splits)

lemma edit_post_body_frame:
  "session_user_id (fst (edit_post_body i e st req)) = session_user_id st
   \<and> users (fst (edit_post_body i e st req)) = users st"
  by (simp add: edit_post_body_def split: option.splits)

lemma delete_post_body_frame:
  "session_user_id (fst (delete_post_body i e st req)) = session_user_id st
   \<and> users (fst (delete_post_body i e st req)) = users st"
  by (simp add: delete_post_body_def session_delete_post_def split: option.splits)

lemma show_post_frame:
  "session_user_id (fst (show_post i e st req)) = session_user_id st
   \<and> users (fst (show_post i e st req)) = users st"
  by (simp add: show_post_def flash_def split: option.splits identity.splits)

lemma contact_frame:
  "session_user_id (fst (contact e st req)) = session_user_id st
   \<and> users (fst (contact e st req)) = users st"
  by (auto simp: contact_def send_emails_def split: option.splits if_splits)

lemma register_frame:
  "session_user_id (fst (register e st req)) = session_user_id st
   \<and> (users (fst (register e st req)) = users st
        \<or> (\<exists>u. users (fst (register e st req)) = users st @ [u]))"
  by (auto simp: register_def flash_def add_user_def split: option.splits if_splits)

lemma login_cases:
  "(session_user_id (fst (login e st req)) = session_user_id st
      \<and> users (fst (login e st req)) = users st
      \<and> snd (login e st req) \<noteq> Redirect ''get_all_posts'' [])
   \<or> (\<exists>em pw u. validate_on_submit e LoginForm req
         \<and> form_get req ''email'' = Some em \<and> form_get req ''password'' = Some pw
         \<and> filter_by_email_first (users st) em = Some u
         \<and> check_password_hash e (u_password u) pw
         \<and> login e st req = (login_user st u, Redirect ''get_all_posts'' []))"
  by (auto simp: login_def flash_def split: option.splits if_splits)

lemma current_user_login_user:
  assumes "u \<in> set (users st)"
  shows "\<exists>u'. current_user (login_user st u) = Authenticated u' \<and> u_id u' = u_id u"
proof -
  have "u_id u \<in> set (map u_id (users st))" using assms by auto
  then obtain x where "query_get_user (users st) (u_id u) = Some x" "u_id x = u_id u"
    using query_get_user_present by blast
  then show ?thesis by (simp add: current_user_def login_user_def load_user_def)
qed


lemma dispatch_frame:
  assumes "r \<noteq> R_login" and "r \<noteq> R_logout"
  shows "session_user_id (fst (dispatch r e st req)) = session_user_id st
         \<and> (users (fst (dispatch r e st req)) = users st
              \<or> (\<exists>u. users (fst (dispatch r e st req)) = users st @ [u]))"
proof (cases r)
  case R_new_post
  then show ?thesis
    using admin_only_frame [of new_post_body e st req] new_post_body_frame
    by (simp add: dispatch_def new_post_def)
next
  case (R_edit_post i)
  then show ?thesis
    using admin_only_frame [of "edit_post_body i" e st req] edit_post_body_frame
    by (simp add: dispatch_def edit_post_def)
next
  case (R_delete_post i)
  then show ?thesis
    using admin_only_frame [of "delete_post_body i" e st req] delete_post_body_frame
    by (simp add: dispatch_def delete_post_def)
next
  case R_register
  then show ?thesis using register_frame [of e st req] by (simp add: dispatch_def)
next
  case (R_show_post i)
  then show ?thesis using show_post_frame [of i e st req] by (simp add: dispatch_def)
next
  case R_contact
  then show ?thesis using contact_frame [of e st req] by (simp add: dispatch_def)
qed (use assms in \<open>simp_all add: dispatch_def get_all_posts_def about_def\<close>)

lemma dispatch_identity:
  assumes "session_valid st" and "r \<noteq> R_login" and "r \<noteq> R_logout"
  shows "current_user (fst (dispatch r e st req)) = current_user st"
  using dispatch_frame [OF assms(2,3), of e st req] assms(1)
  by (auto intro: current_user_same current_user_new_row)

text \<open>
  The reader is logged in and posts a login form with an email nobody registered. The
  attempt fails (flashed message, redirect to the login page), and afterwards the reader
  is still logged in: the state after a failed attempt is not anonymous. With the admin's
  credentials instead, the identity goes from the reader to the admin, with no logout
  between.
\<close>

theorem login_failed_counterexample:
  "login demo_env reader_state unknown_login_request
     = (flash reader_state ''That email doesn't exist, please try again.'', Redirect ''login'' [])
   \<and> current_user (fst (login demo_env reader_state unknown_login_request))
       = Authenticated reader_user
   \<and> current_user (fst (login demo_env reader_state good_login_request))
       = Authenticated admin_user"
proof -
  have l: "login demo_env reader_state unknown_login_request
     = (flash reader_state ''That email doesn't exist, please try again.'', Redirect ''login'' [])"
    by (simp add: login_def validate_on_submit_demo unknown_login_request_def post_request_def
        form_get_def reader_state_tables filter_by_email_first_def admin_user_def reader_user_def)
  have "current_user (flash reader_state m) = current_user reader_state" for m
    by (rule current_user_same) (simp_all add: flash_def)
  with l have f: "current_user (fst (login demo_env reader_state unknown_login_request))
       = Authenticated reader_user"
    by (simp add: current_user_demo_reader)
  have "filter_by_email_first (users reader_state) ''ann@x.com'' = Some admin_user"
    by (simp add: filter_by_email_first_def reader_state_tables admin_user_def)
  then have "login demo_env reader_state good_login_request
          = (login_user reader_state admin_user, Redirect ''get_all_posts'' [])"
    by (simp add: login_def validate_on_submit_demo good_login_request_def post_request_def
        form_get_def)
      (simp add: demo_env_def admin_user_def)
  moreover have "current_user (login_user reader_state admin_user) = Authenticated admin_user"
    by (simp add: current_user_def login_user_def load_user_def query_get_user_def
        reader_state_tables admin_user_def)
  ultimately show ?thesis using l f by simp
qed

text \<open>
  C8, as amended. A login attempt that fails, because the email is not registered or the
  password check is false, is answered with a redirect to the login page and leaves the
  session and the identity as they were; an anonymous client stays anonymous. Over all
  routes, from a state whose session names a stored user, the identity changes only in
  two ways: a login with an email of a stored user and a password that passes the check
  makes the identity that user (from anonymous or from another user), and a logout of a
  logged-in client makes it anonymous.
\<close>

theorem session_transitions:
  "((validate_on_submit e LoginForm req \<and> form_get req ''email'' = Some em
       \<and> form_get req ''password'' = Some pw
       \<and> (filter_by_email_first (users st) em = None
            \<or> (\<exists>u. filter_by_email_first (users st) em = Some u
                   \<and> \<not> check_password_hash e (u_password u) pw)))
      \<longrightarrow> snd (login e st req) = Redirect ''login'' []
          \<and> session_user_id (fst (login e st req)) = session_user_id st
          \<and> current_user (fst (login e st req)) = current_user st
          \<and> (current_user st = Anonymous \<longrightarrow> current_user (fst (login e st req)) = Anonymous))
   \<and> ((session_valid st2 \<and> current_user (fst (dispatch r e2 st2 req2)) \<noteq> current_user st2)
      \<longrightarrow> (r = R_login
            \<and> (\<exists>em2 pw2 u. validate_on_submit e2 LoginForm req2
                  \<and> form_get req2 ''email'' = Some em2 \<and> form_get req2 ''password'' = Some pw2
                  \<and> filter_by_email_first (users st2) em2 = Some u
                  \<and> check_password_hash e2 (u_password u) pw2
                  \<and> session_user_id (fst (dispatch r e2 st2 req2)) = Some (u_id u)
                  \<and> (\<exists>u'. current_user (fst (dispatch r e2 st2 req2)) = Authenticated u'
                         \<and> u_id u' = u_id u)))
          \<or> (r = R_logout \<and> current_user st2 \<noteq> Anonymous
                \<and> current_user (fst (dispatch r e2 st2 req2)) = Anonymous))"
proof (intro conjI impI)
  assume a: "validate_on_submit e LoginForm req \<and> form_get req ''email'' = Some em
       \<and> form_get req ''password'' = Some pw
       \<and> (filter_by_email_first (users st) em = None
            \<or> (\<exists>u. filter_by_email_first (users st) em = Some u
                   \<and> \<not> check_password_hash e (u_password u) pw))"
  then obtain m where l: "login e st req = (flash st m, Redirect ''login'' [])"
    by (auto simp: login_def)
  have c: "current_user (flash st m) = current_user st"
    by (rule current_user_same) (simp_all add: flash_def)
  show "snd (login e st req) = Redirect ''login'' []" using l by simp
  show "session_user_id (fst (login e st req)) = session_user_id st"
    using l by (simp add: flash_def)
  show "current_user (fst (login e st req)) = current_user st" using l c by simp
  show "current_user (fst (login e st req)) = Anonymous" if "current_user st = Anonymous"
    using l c that by simp
next
  assume b: "session_valid st2 \<and> current_user (fst (dispatch r e2 st2 req2)) \<noteq> current_user st2"
  let ?st' = "fst (dispatch r e2 st2 req2)"
  from b dispatch_identity [of st2 r e2 req2] have r: "r = R_login \<or> r = R_logout" by blast
  then show "(r = R_login
            \<and> (\<exists>em2 pw2 u. validate_on_submit e2 LoginForm req2
                  \<and> form_get req2 ''email'' = Some em2 \<and> form_get req2 ''password'' = Some pw2
                  \<and> filter_by_email_first (users st2) em2 = Some u
                  \<and> check_password_hash e2 (u_password u) pw2
                  \<and> session_user_id ?st' = Some (u_id u)
                  \<and> (\<exists>u'. current_user ?st' = Authenticated u' \<and> u_id u' = u_id u)))
          \<or> (r = R_logout \<and> current_user st2 \<noteq> Anonymous \<and> current_user ?st' = Anonymous)"
  proof
    assume rl: "r = R_login"
    then have d: "dispatch r e2 st2 req2 = login e2 st2 req2" by (simp add: dispatch_def)
    from login_cases [of e2 st2 req2] show ?thesis
    proof
      assume "session_user_id (fst (login e2 st2 req2)) = session_user_id st2
                \<and> users (fst (login e2 st2 req2)) = users st2
                \<and> snd (login e2 st2 req2) \<noteq> Redirect ''get_all_posts'' []"
      then have "current_user (fst (login e2 st2 req2)) = current_user st2"
        by (intro current_user_same) simp_all
      with b d show ?thesis by simp
    next
      assume "\<exists>em pw u. validate_on_submit e2 LoginForm req2
         \<and> form_get req2 ''email'' = Some em \<and> form_get req2 ''password'' = Some pw
         \<and> filter_by_email_first (users st2) em = Some u
         \<and> check_password_hash e2 (u_password u) pw
         \<and> login e2 st2 req2 = (login_user st2 u, Redirect ''get_all_posts'' [])"
      then obtain em pw u where s: "validate_on_submit e2 LoginForm req2"
        "form_get req2 ''email'' = Some em" "form_get req2 ''password'' = Some pw"
        "filter_by_email_first (users st2) em = Some u"
        "check_password_hash e2 (u_password u) pw"
        "login e2 st2 req2 = (login_user st2 u, Redirect ''get_all_posts'' [])"
        by blast
      have "u \<in> set (users st2)" using s(4) by (rule filter_by_email_first_member)
      from current_user_login_user [OF this] obtain u' where
        "current_user (login_user st2 u) = Authenticated u'" "u_id u' = u_id u" by blast
      with s d rl show ?thesis by (auto simp: login_user_def)
    qed
  next
    assume ro: "r = R_logout"
    have "current_user (logout_user st2) = Anonymous"
      by (simp add: current_user_def logout_user_def)
    moreover have "fst (dispatch r e2 st2 req2) = st2 \<or> fst (dispatch r e2 st2 req2) = logout_user st2"
      using ro by (simp add: dispatch_def logout_def)
    ultimately show ?thesis using b ro by auto
  qed
qed


theorem session_transitions_witness:
  "validate_on_submit demo_env LoginForm bad_login_request
   \<and> form_get bad_login_request ''email'' = Some ''ann@x.com''
   \<and> form_get bad_login_request ''password'' = Some ''nope''
   \<and> filter_by_email_first (users (demo_state None)) ''ann@x.com'' = Some admin_user
   \<and> \<not> check_password_hash demo_env (u_password admin_user) ''nope''
   \<and> current_user (demo_state None) = Anonymous
   \<and> snd (login demo_env (demo_state None) bad_login_request) = Redirect ''login'' []
   \<and> current_user (fst (login demo_env (demo_state None) bad_login_request)) = Anonymous
   \<and> session_valid (demo_state None)
   \<and> current_user (fst (dispatch R_login demo_env (demo_state None) good_login_request))
        = Authenticated admin_user
   \<and> current_user (fst (dispatch R_login demo_env (demo_state None) good_login_request))
        \<noteq> current_user (demo_state None)
   \<and> session_user_id (fst (dispatch R_login demo_env (demo_state None) good_login_request))
        = Some (u_id admin_user)"
proof -
  have v: "validate_on_submit demo_env LoginForm bad_login_request"
    by (simp add: validate_on_submit_demo bad_login_request_def post_request_def)
  have k1: "form_get bad_login_request ''email'' = Some ''ann@x.com''"
    by (simp add: form_get_def bad_login_request_def post_request_def)
  have k2: "form_get bad_login_request ''password'' = Some ''nope''"
    by (simp add: form_get_def bad_login_request_def post_request_def)
  have f: "filter_by_email_first (users (demo_state None)) ''ann@x.com'' = Some admin_user"
    by (simp add: filter_by_email_first_def demo_state_def admin_user_def)
  have c: "\<not> check_password_hash demo_env (u_password admin_user) ''nope''"
    by (simp add: demo_env_def admin_user_def)
  have a: "current_user (demo_state None) = Anonymous"
    by (simp add: current_user_def demo_state_def)
  have sv: "session_valid (demo_state None)"
    by (simp add: session_valid_def demo_state_def)
  have g: "dispatch R_login demo_env (demo_state None) good_login_request
             = (login_user (demo_state None) admin_user, Redirect ''get_all_posts'' [])"
    by (simp add: dispatch_def login_def validate_on_submit_demo good_login_request_def
        post_request_def form_get_def f)
      (simp add: demo_env_def admin_user_def)
  have n: "current_user (login_user (demo_state None) admin_user) = Authenticated admin_user"
    by (simp add: current_user_def login_user_def load_user_def query_get_user_def demo_state_def
        admin_user_def)
  show ?thesis
    using v k1 k2 f c a sv g n
      session_transitions [where e = demo_env and req = bad_login_request
        and em = "''ann@x.com''" and pw = "''nope''" and st = "demo_state None"
        and ?st2.0 = "demo_state None" and r = R_login and ?e2.0 = demo_env
        and ?req2.0 = good_login_request]
    by (auto simp: login_user_def)
qed


text \<open>Every request keeps the session pointing at a stored user.\<close>

lemma session_valid_iff:
  "session_valid st = (\<forall>i. session_user_id st = Some i \<longrightarrow> i \<in> set (map u_id (users st)))"
  by (simp add: session_valid_def split: option.splits)

lemma dispatch_session_valid:
  assumes "session_valid st"
  shows "session_valid (fst (dispatch r e st req))"
proof -
  consider "r = R_login" | "r = R_logout" | "r \<noteq> R_login" "r \<noteq> R_logout" by blast
  then show ?thesis
  proof cases
    case 1
    then have d: "dispatch r e st req = login e st req" by (simp add: dispatch_def)
    from login_cases [of e st req] show ?thesis
    proof
      assume "session_user_id (fst (login e st req)) = session_user_id st
                \<and> users (fst (login e st req)) = users st
                \<and> snd (login e st req) \<noteq> Redirect ''get_all_posts'' []"
      with assms d show ?thesis by (simp add: session_valid_iff)
    next
      assume "\<exists>em pw u. validate_on_submit e LoginForm req
         \<and> form_get req ''email'' = Some em \<and> form_get req ''password'' = Some pw
         \<and> filter_by_email_first (users st) em = Some u
         \<and> check_password_hash e (u_password u) pw
         \<and> login e st req = (login_user st u, Redirect ''get_all_posts'' [])"
      then obtain em u where "filter_by_email_first (users st) em = Some u"
        "login e st req = (login_user st u, Redirect ''get_all_posts'' [])" by blast
      then show ?thesis
        using d filter_by_email_first_member [of "users st" em u]
        by (simp add: session_valid_iff login_user_def)
    qed
  next
    case 2
    then have "fst (dispatch r e st req) = st \<or> fst (dispatch r e st req) = logout_user st"
      by (simp add: dispatch_def logout_def)
    with assms show ?thesis by (auto simp: session_valid_iff logout_user_def)
  next
    case 3
    from dispatch_frame [OF 3, of e st req] assms show ?thesis
      by (auto simp: session_valid_iff)
  qed
qed

section \<open>Registration with a fresh email\<close>

text \<open>
  A valid registration form whose email no user has adds one user row, with the submitted
  email and name and with the output of \<open>generate_password_hash\<close> on the submitted
  password as its password, and a lookup of the email then finds that row.
\<close>

lemma filter_by_email_first_fresh:
  "filter_by_email_first us em = None \<Longrightarrow> em \<notin> set (map u_email us)"
  unfolding filter_by_email_first_def by (induction us) (auto split: if_splits)

lemma filter_by_email_first_new_row:
  "filter_by_email_first us em = None \<Longrightarrow> u_email u = em
     \<Longrightarrow> filter_by_email_first (us @ [u]) em = Some u"
  unfolding filter_by_email_first_def by (induction us) (auto split: if_splits)

lemma register_fresh_email:
  assumes "validate_form e RegisterForm req" and "form_get req ''email'' = Some em"
    and "form_get req ''password'' = Some pw" and "form_get req ''name'' = Some nm"
    and "filter_by_email_first (users st) em = None"
  shows "\<exists>st' u. register e st req = (st', Redirect ''get_all_posts'' [])
           \<and> users st' = users st @ [u]
           \<and> filter_by_email_first (users st') em = Some u
           \<and> u_email u = em \<and> u_name u = nm
           \<and> u_password u = generate_password_hash e pw"
proof -
  let ?u = "\<lparr>u_id = next_id (map u_id (users st)), u_email = em,
             u_password = generate_password_hash e pw, u_name = nm\<rparr>"
  have "add_user (users st) em (generate_password_hash e pw) nm = Some (users st @ [?u])"
    using filter_by_email_first_fresh [OF assms(5)] by (simp add: add_user_def)
  then have "register e st req = (st\<lparr>users := users st @ [?u]\<rparr>, Redirect ''get_all_posts'' [])"
    using assms by (simp add: register_def)
  moreover have "filter_by_email_first (users st @ [?u]) em = Some ?u"
    using assms(5) by (intro filter_by_email_first_new_row) simp_all
  ultimately show ?thesis by simp
qed

end
